theory Spec2Isabelle
  imports Main
begin

section \<open>Values exchanged with the platform and the Gateway\<close>

text \<open>
  A JavaScript string is modelled as a \<^typ>\<open>string\<close>: a sequence of code units below 256.
  A promise settles with a value, settles with an exception, or never settles.
\<close>

datatype exn = JsError string | JsTypeError string | JsSyntaxError string

fun message :: "exn \<Rightarrow> string" where
  "message (JsError m) = m"
| "message (JsTypeError m) = m"
| "message (JsSyntaxError m) = m"

datatype 'a promise = Pending | Rejected exn | Fulfilled 'a

text \<open>
  What \<open>JSON.parse\<close> yields. An object is the list of its own properties (keys distinct,
  in insertion order). Numbers are the integers, as the response schema declares the step
  number; fractions and the exponent notation of large magnitudes are outside the model.
  A value of type \<open>json option\<close> is a JavaScript value read from such data, \<open>None\<close>
  being \<open>undefined\<close>.
\<close>

datatype json =
    JNull
  | JBool bool
  | JNum int
  | JStr string
  | JArr "json list"
  | JObj "(string \<times> json) list"

subsection \<open>Strings\<close>

definition digit_char :: "nat \<Rightarrow> char" where
  "digit_char d = char_of (48 + d)"

fun show_nat :: "nat \<Rightarrow> string" where
  "show_nat n = (if n < 10 then [digit_char n] else show_nat (n div 10) @ [digit_char (n mod 10)])"

declare show_nat.simps [simp del]

definition show_int :: "int \<Rightarrow> string" where
  "show_int i = (if i < 0 then CHR ''-'' # show_nat (nat (- i)) else show_nat (nat i))"

text \<open>
  \<open>ToString\<close> on parsed JSON, as a template literal applies it. An array prints its
  elements joined by commas, \<open>null\<close> elements printing as the empty string. A plain object
  prints through \<open>Object.prototype.toString\<close>, unless it has an own property \<open>toString\<close>:
  parsed data is never callable, so the conversion to a primitive fails.
\<close>

fun to_string :: "json \<Rightarrow> exn + string"
  and join_elems :: "json list \<Rightarrow> exn + string" where
  "to_string JNull = Inr ''null''"
| "to_string (JBool b) = Inr (if b then ''true'' else ''false'')"
| "to_string (JNum i) = Inr (show_int i)"
| "to_string (JStr s) = Inr s"
| "to_string (JArr xs) = join_elems xs"
| "to_string (JObj kvs) =
     (if ''toString'' \<in> set (map fst kvs)
      then Inl (JsTypeError ''Cannot convert object to primitive value'')
      else Inr ''[object Object]'')"
| "join_elems [] = Inr ''''"
| "join_elems (x # xs) =
     (case (if x = JNull then Inr '''' else to_string x) of
        Inl e \<Rightarrow> Inl e
      | Inr s \<Rightarrow>
          (if xs = [] then Inr s
           else (case join_elems xs of Inl e \<Rightarrow> Inl e | Inr t \<Rightarrow> Inr (s @ '','' @ t))))"

definition template_value :: "json option \<Rightarrow> exn + string" where
  "template_value v = (case v of None \<Rightarrow> Inr ''undefined'' | Some j \<Rightarrow> to_string j)"

text \<open>
  The own property \<open>k\<close> of a value, for the keys \<open>step\<close> and \<open>goal\<close> the program reads:
  only objects have them (strings and arrays own index keys only).
\<close>

fun own_property :: "json \<Rightarrow> string \<Rightarrow> json option" where
  "own_property (JObj kvs) k = map_of kvs k"
| "own_property _ k = None"

text \<open>\<open>planStep.goal\<close>: reading a property of \<open>null\<close> throws.\<close>

definition read_goal :: "json \<Rightarrow> exn + json option" where
  "read_goal planStep =
     (if planStep = JNull
      then Inl (JsTypeError ''Cannot read properties of null (reading 'goal')'')
      else Inr (own_property planStep ''goal''))"

text \<open>\<open>s.split(',')\<close> and the read of index 1 of its result.\<close>

fun split_comma :: "string \<Rightarrow> string list" where
  "split_comma [] = [[]]"
| "split_comma (c # cs) =
     (if c = CHR '','' then [] # split_comma cs
      else (case split_comma cs of [] \<Rightarrow> [[c]] | x # xs \<Rightarrow> (c # x) # xs))"

fun second :: "'a list \<Rightarrow> 'a option" where
  "second (x # y # ys) = Some y"
| "second _ = None"

text \<open>\<open>String.prototype.trim\<close>: white space and line terminators below 256.\<close>

definition is_white_space :: "char \<Rightarrow> bool" where
  "is_white_space c \<longleftrightarrow>
     c \<in> set [CHR 0x09, CHR 0x0A, CHR 0x0B, CHR 0x0C, CHR 0x0D, CHR 0x20, CHR 0xA0]"

definition trim :: "string \<Rightarrow> string" where
  "trim s = rev (dropWhile is_white_space (rev (dropWhile is_white_space s)))"

subsection \<open>The types of \<open>types.ts\<close>\<close>

text \<open>
  A \<open>PlanStep\<close> is what the Gateway sent: the plan is returned as parsed, so its elements
  are JSON values. A \<open>RestorationStep\<close> is the object
  \<open>{...planStep, prompt, beforeImage, afterImage}\<close>, read through the five properties of
  its interface; \<open>beforeImage\<close> holds the loop's current image, which starts as
  \<open>imagePreview\<close> (a string or \<open>null\<close>).
\<close>

type_synonym PlanStep = json

record RestorationStep =
  step :: "json option"
  goal :: "json option"
  prompt :: string
  beforeImage :: "string option"
  afterImage :: string

datatype AppStatus = Idle | Planning | Restoring | Done | Error

subsection \<open>Requests and responses of the client library\<close>

record blob =
  data :: "string option"
  mimeType :: "string option"

text \<open>
  A part with its keys \<open>text\<close> and \<open>inlineData\<close>. For \<open>inlineData\<close>, \<open>None\<close> is an absent
  key and \<open>Some None\<close> a key whose value is \<open>undefined\<close> or \<open>null\<close>.
\<close>

record part =
  text_p :: "string option"
  inlineData :: "blob option option"

datatype schema =
    TypeArray schema
  | TypeObject "(string \<times> schema) list" "string list"
  | TypeInteger string
  | TypeString string

datatype modality = IMAGE

record config =
  responseMimeType :: "string option"
  responseSchema :: "schema option"
  responseModalities :: "modality list option"

record request =
  model :: string
  contents :: "part list"
  config :: "config option"

datatype content = Content (parts: "part list option")

datatype candidate = Candidate (content: "content option")

record response =
  text_r :: "string option"
  candidates :: "candidate list option"

text \<open>
  The client object is its \<open>models.generateContent\<close> method: from a request and the state
  of the remote service to a promise and the service's next state.
\<close>

type_synonym 'g GoogleGenAI = "request \<Rightarrow> 'g \<Rightarrow> response promise \<times> 'g"

text \<open>A \<open>File\<close>: its media type and what \<open>FileReader.readAsDataURL\<close> leaves in \<open>result\<close>.\<close>

record File =
  file_type :: string
  reader_result :: "string option"

subsection \<open>The component's state, and the world around it\<close>

record app_state =
  imageFile :: "File option"
  imagePreview :: "string option"
  userPrompt :: string
  status :: AppStatus
  error :: "string option"
  restorationSteps :: "RestorationStep list"
  progressMessage :: string

datatype event =
    SetStatus AppStatus
  | SetError "string option"
  | SetRestorationSteps "RestorationStep list"
  | SetProgressMessage string
  | GenerateContent request

text \<open>
  The world: the component's state \<open>ui\<close>, the ref \<open>aiRef\<close>, the state of the remote
  service, and the record \<open>trace\<close> of every call of \<open>setStatus\<close>, \<open>setError\<close>,
  \<open>setRestorationSteps\<close> and \<open>setProgressMessage\<close> and of every request sent, oldest
  first. Console output is not modelled.
\<close>

record 'g world =
  ui :: app_state
  aiRef :: "'g GoogleGenAI option"
  remote :: 'g
  trace :: "event list"

text \<open>
  The platform: \<open>process.env.API_KEY\<close>, \<open>JSON.parse\<close> (\<open>None\<close> when it throws a
  SyntaxError) and the constructor \<open>new GoogleGenAI({apiKey})\<close>.
\<close>

record 'g env =
  API_KEY :: "string option"
  JSON_parse :: "string \<Rightarrow> json option"
  new_GoogleGenAI :: "string \<Rightarrow> 'g GoogleGenAI"

definition setStatus :: "AppStatus \<Rightarrow> 'g world \<Rightarrow> 'g world" where
  "setStatus v w = w\<lparr>ui := (ui w)\<lparr>status := v\<rparr>, trace := trace w @ [SetStatus v]\<rparr>"

definition setError :: "string option \<Rightarrow> 'g world \<Rightarrow> 'g world" where
  "setError v w = w\<lparr>ui := (ui w)\<lparr>error := v\<rparr>, trace := trace w @ [SetError v]\<rparr>"

definition setRestorationSteps :: "RestorationStep list \<Rightarrow> 'g world \<Rightarrow> 'g world" where
  "setRestorationSteps v w =
     w\<lparr>ui := (ui w)\<lparr>restorationSteps := v\<rparr>, trace := trace w @ [SetRestorationSteps v]\<rparr>"

definition setProgressMessage :: "string \<Rightarrow> 'g world \<Rightarrow> 'g world" where
  "setProgressMessage v w =
     w\<lparr>ui := (ui w)\<lparr>progressMessage := v\<rparr>, trace := trace w @ [SetProgressMessage v]\<rparr>"

definition generateContent ::
  "'g GoogleGenAI \<Rightarrow> request \<Rightarrow> 'g world \<Rightarrow> response promise \<times> 'g world" where
  "generateContent ai req w =
     (case ai req (remote w) of
        (r, g) \<Rightarrow> (r, w\<lparr>remote := g, trace := trace w @ [GenerateContent req]\<rparr>))"

text \<open>
  Sequencing: \<open>await\<close> continues with the value of a fulfilled promise and stops at a
  rejected or pending one; \<open>or_throw\<close> does the same for a synchronous computation that
  may throw.
\<close>

definition await ::
  "'a promise \<times> 'w \<Rightarrow> ('a \<Rightarrow> 'w \<Rightarrow> 'b promise \<times> 'w) \<Rightarrow> 'b promise \<times> 'w" where
  "await m k =
     (case m of
        (Pending, w) \<Rightarrow> (Pending, w)
      | (Rejected e, w) \<Rightarrow> (Rejected e, w)
      | (Fulfilled x, w) \<Rightarrow> k x w)"

definition or_throw :: "exn + 'a \<Rightarrow> 'w \<Rightarrow> ('a \<Rightarrow> 'b promise \<times> 'w) \<Rightarrow> 'b promise \<times> 'w" where
  "or_throw r w k = (case r of Inl e \<Rightarrow> (Rejected e, w) | Inr x \<Rightarrow> k x)"

section \<open>The service: \<open>geminiService.ts\<close>\<close>

text \<open>
  \<open>fileToGenerativePart\<close>: the promise resolves in the reader's \<open>onloadend\<close> with
  \<open>result.split(',')[1]\<close>. When the read failed, \<open>result\<close> is \<open>null\<close>, the handler throws and
  the promise never settles: \<open>None\<close>.
\<close>

definition fileToGenerativePart :: "File \<Rightarrow> part option" where
  "fileToGenerativePart file =
     (case reader_result file of
        None \<Rightarrow> None
      | Some url \<Rightarrow>
          Some \<lparr>text_p = None,
                inlineData = Some (Some \<lparr>data = second (split_comma url),
                                          mimeType = Some (file_type file)\<rparr>)\<rparr>)"

text \<open>
  \<open>base64ToGenerativePart\<close>: the second argument is \<open>None\<close> when the caller omits it, and
  defaults to \<open>image/png\<close>. The first is the current image, \<open>null\<close> when the preview was
  not loaded.
\<close>

definition base64ToGenerativePart :: "string option \<Rightarrow> string option \<Rightarrow> exn + part" where
  "base64ToGenerativePart base64Data mimeType_arg =
     (case base64Data of
        None \<Rightarrow> Inl (JsTypeError ''Cannot read properties of null (reading 'split')'')
      | Some s \<Rightarrow>
          Inr \<lparr>text_p = None,
               inlineData = Some (Some \<lparr>data = second (split_comma s),
                                         mimeType = Some (case mimeType_arg of
                                                            None \<Rightarrow> ''image/png''
                                                          | Some m \<Rightarrow> m)\<rparr>)\<rparr>)"

definition plan_prompt :: "string \<Rightarrow> string" where
  \<open>plan_prompt userPrompt_arg =
     ''You are an expert photo restoration specialist. Analyze the provided image and the user's request: "''
     @ userPrompt_arg @ ''". 
    Create a dedicated, step-by-step plan to restore this photo to a full-color, high-quality image as if it was taken with a modern DSLR. 
    The plan should have between 2 and 4 distinct steps. For each step, define a clear goal.
    ''\<close>

definition plan_config :: config where
  "plan_config =
     \<lparr>responseMimeType = Some ''application/json'',
      responseSchema = Some (TypeArray (TypeObject
        [(''step'', TypeInteger ''The step number, starting from 1.''),
         (''goal'', TypeString ''A clear, concise goal for this restoration step.'')]
        [''step'', ''goal''])),
      responseModalities = None\<rparr>"

definition plan_request :: "part \<Rightarrow> string \<Rightarrow> request" where
  "plan_request imagePart userPrompt_arg =
     \<lparr>model = ''gemini-2.5-pro'',
      contents = [\<lparr>text_p = Some (plan_prompt userPrompt_arg), inlineData = None\<rparr>, imagePart],
      config = Some plan_config\<rparr>"

text \<open>
  The \<open>try\<close> block of \<open>generateRestorationPlan\<close>: \<open>JSON.parse(response.text)\<close> (an absent
  text is converted to the string \<open>undefined\<close>), then the test
  \<open>Array.isArray(plan) && plan.length > 0\<close>.
\<close>

definition parse_plan :: "'g env \<Rightarrow> response \<Rightarrow> exn + PlanStep list" where
  "parse_plan env rsp =
     (case JSON_parse env (case text_r rsp of None \<Rightarrow> ''undefined'' | Some t \<Rightarrow> t) of
        None \<Rightarrow> Inl (JsSyntaxError ''Unexpected token'')
      | Some (JArr plan) \<Rightarrow>
          (if length plan > 0 then Inr plan
           else Inl (JsError ''Invalid plan format received from API.''))
      | Some _ \<Rightarrow> Inl (JsError ''Invalid plan format received from API.''))"

text \<open>The \<open>catch\<close> block replaces whatever was thrown.\<close>

definition generateRestorationPlan ::
  "'g env \<Rightarrow> 'g GoogleGenAI \<Rightarrow> File \<Rightarrow> string \<Rightarrow> 'g world \<Rightarrow> PlanStep list promise \<times> 'g world" where
  "generateRestorationPlan env ai imageFile_arg userPrompt_arg w =
     (case fileToGenerativePart imageFile_arg of
        None \<Rightarrow> (Pending, w)
      | Some imagePart \<Rightarrow>
          await (generateContent ai (plan_request imagePart userPrompt_arg) w)
            (\<lambda>rsp w'.
               (case parse_plan env rsp of
                  Inr plan \<Rightarrow> (Fulfilled plan, w')
                | Inl e \<Rightarrow>
                    (Rejected (JsError ''Could not generate a valid restoration plan. The AI's response was not in the expected format.''), w'))))"

definition step_prompt :: "string \<Rightarrow> string \<Rightarrow> string" where
  \<open>step_prompt stepGoal userPrompt_arg =
     ''You are an expert prompt engineer for generative AI image models. Based on the provided image and the restoration goal: "''
     @ stepGoal @ ''", create a concise but detailed prompt for the Gemini 2.5 Flash Image model. 
    The prompt must instruct the model to edit the image to achieve the goal while preserving the original composition, subject, and key features.
    If you see specific flaws like scratches, dust, or missing parts, include instructions to fix them.
    Where relevant, incorporate the user's original request: "''
     @ userPrompt_arg @ ''".
    The final output should be ONLY the prompt string, with no extra text or formatting.
    ''\<close>

definition prompt_request :: "part \<Rightarrow> string \<Rightarrow> string \<Rightarrow> request" where
  "prompt_request imagePart goal_text userPrompt_arg =
     \<lparr>model = ''gemini-2.5-pro'',
      contents = [\<lparr>text_p = Some (step_prompt goal_text userPrompt_arg), inlineData = None\<rparr>,
                  imagePart],
      config = None\<rparr>"

text \<open>
  \<open>generateStepPrompt\<close>: the goal is whatever the plan element holds under \<open>goal\<close>;
  \<open>response.text.trim()\<close> throws when the response has no text.
\<close>

definition generateStepPrompt ::
  "'g GoogleGenAI \<Rightarrow> string option \<Rightarrow> json option \<Rightarrow> string \<Rightarrow> 'g world \<Rightarrow> string promise \<times> 'g world" where
  "generateStepPrompt ai currentImageBase64 stepGoal userPrompt_arg w =
     or_throw (base64ToGenerativePart currentImageBase64 None) w (\<lambda>imagePart.
     or_throw (template_value stepGoal) w (\<lambda>goal_text.
     await (generateContent ai (prompt_request imagePart goal_text userPrompt_arg) w)
       (\<lambda>rsp w'.
          (case text_r rsp of
             None \<Rightarrow> (Rejected (JsTypeError ''Cannot read properties of undefined (reading 'trim')''), w')
           | Some t \<Rightarrow> (Fulfilled (trim t), w')))))"

text \<open>\<open>response.candidates?.[0]?.content?.parts[0]\<close>\<close>

definition first_part :: "response \<Rightarrow> exn + part option" where
  "first_part rsp =
     (case candidates rsp of
        None \<Rightarrow> Inr None
      | Some [] \<Rightarrow> Inr None
      | Some (c # cs) \<Rightarrow>
          (case content c of
             None \<Rightarrow> Inr None
           | Some (Content None) \<Rightarrow>
               Inl (JsTypeError ''Cannot read properties of undefined (reading '0')'')
           | Some (Content (Some [])) \<Rightarrow> Inr None
           | Some (Content (Some (p # ps))) \<Rightarrow> Inr (Some p)))"

definition edit_request :: "part \<Rightarrow> string \<Rightarrow> request" where
  "edit_request imagePart stepPrompt =
     \<lparr>model = ''gemini-2.5-flash-image'',
      contents = [\<lparr>text_p = Some stepPrompt, inlineData = None\<rparr>, imagePart],
      config = Some \<lparr>responseMimeType = None, responseSchema = None,
                      responseModalities = Some [IMAGE]\<rparr>\<rparr>"

definition executeImageStep ::
  "'g GoogleGenAI \<Rightarrow> string option \<Rightarrow> string \<Rightarrow> 'g world \<Rightarrow> string promise \<times> 'g world" where
  "executeImageStep ai currentImageBase64 stepPrompt w =
     or_throw (base64ToGenerativePart currentImageBase64 None) w (\<lambda>imagePart.
     await (generateContent ai (edit_request imagePart stepPrompt) w)
       (\<lambda>rsp w'.
          or_throw (first_part rsp) w' (\<lambda>firstPart.
            (case firstPart of
               Some p \<Rightarrow>
                 (case inlineData p of
                    Some (Some b) \<Rightarrow>
                      (Fulfilled (''data:image/png;base64,''
                                  @ (case data b of None \<Rightarrow> ''undefined'' | Some d \<Rightarrow> d)), w')
                  | Some None \<Rightarrow>
                      (Rejected (JsTypeError ''Cannot read properties of undefined (reading 'data')''), w')
                  | None \<Rightarrow>
                      (Rejected (JsError ''Image generation failed or did not return an image.''), w'))
             | None \<Rightarrow>
                 (Rejected (JsError ''Image generation failed or did not return an image.''), w')))))"

section \<open>The component: \<open>App.tsx\<close>\<close>

definition getAiClient :: "'g env \<Rightarrow> 'g world \<Rightarrow> (exn + 'g GoogleGenAI) \<times> 'g world" where
  "getAiClient env w =
     (case aiRef w of
        Some ai \<Rightarrow> (Inr ai, w)
      | None \<Rightarrow>
          (case API_KEY env of
             None \<Rightarrow> (Inl (JsError ''API_KEY environment variable not set''), w)
           | Some k \<Rightarrow>
               (if k = [] then (Inl (JsError ''API_KEY environment variable not set''), w)
                else (Inr (new_GoogleGenAI env k), w\<lparr>aiRef := Some (new_GoogleGenAI env k)\<rparr>))))"

definition resetState :: "'g world \<Rightarrow> 'g world" where
  "resetState w =
     setProgressMessage [] (setRestorationSteps [] (setError None (setStatus Idle w)))"

definition handleStartOver :: "'g world \<Rightarrow> 'g world" where
  "handleStartOver w =
     resetState (w\<lparr>ui := (ui w)\<lparr>imageFile := None, imagePreview := None, userPrompt := []\<rparr>\<rparr>)"

text \<open>
  \<open>handleFileChange\<close>, on the file chosen (\<open>e.target.files?.[0]\<close>): it sets \<open>imageFile\<close>,
  starts the reader and resets the state; the preview is not touched. The reader's
  \<open>onloadend\<close> callback runs later and sets \<open>imagePreview\<close> to the reader's result.
\<close>

definition handleFileChange :: "File option \<Rightarrow> 'g world \<Rightarrow> 'g world" where
  "handleFileChange chosen w =
     (case chosen of
        None \<Rightarrow> w
      | Some file \<Rightarrow> resetState (w\<lparr>ui := (ui w)\<lparr>imageFile := Some file\<rparr>\<rparr>))"

definition onloadend :: "File \<Rightarrow> 'g world \<Rightarrow> 'g world" where
  "onloadend file w = w\<lparr>ui := (ui w)\<lparr>imagePreview := reader_result file\<rparr>\<rparr>"

text \<open>The button that invokes \<open>handleRestore\<close> is rendered when \<open>status === 'idle' && imageFile\<close>.\<close>

definition restore_button_shown :: "app_state \<Rightarrow> bool" where
  "restore_button_shown u \<longleftrightarrow> status u = Idle \<and> imageFile u \<noteq> None"

text \<open>
  The two progress messages of an iteration,
  \<open>Step ${index + 1}/${totalSteps}: <what> "${planStep.goal}"...\<close>
\<close>

definition step_message :: "nat \<Rightarrow> nat \<Rightarrow> string \<Rightarrow> PlanStep \<Rightarrow> exn + string" where
  \<open>step_message index totalSteps what planStep =
     (case read_goal planStep of
        Inl e \<Rightarrow> Inl e
      | Inr g \<Rightarrow>
          (case template_value g of
             Inl e \<Rightarrow> Inl e
           | Inr s \<Rightarrow>
               Inr (''Step '' @ show_nat (index + 1) @ ''/'' @ show_nat totalSteps @ '': ''
                    @ what @ '' "'' @ s @ ''"...'')))\<close>

text \<open>
  The body of the \<open>for\<close> loop, on the loop's variables \<open>currentImageBase64\<close> and
  \<open>completedSteps\<close>.
\<close>

type_synonym loop_vars = "string option \<times> RestorationStep list"

definition loop_body ::
  "'g GoogleGenAI \<Rightarrow> string \<Rightarrow> nat \<Rightarrow> nat \<Rightarrow> PlanStep \<Rightarrow> loop_vars \<Rightarrow> 'g world
     \<Rightarrow> loop_vars promise \<times> 'g world" where
  "loop_body ai userPrompt_arg totalSteps index planStep vars w =
     (case vars of (currentImageBase64, completedSteps) \<Rightarrow>
        or_throw (step_message index totalSteps ''Generating prompt for'' planStep) w (\<lambda>m1.
        await (generateStepPrompt ai currentImageBase64 (own_property planStep ''goal'')
                 userPrompt_arg (setProgressMessage m1 w))
          (\<lambda>stepPrompt w2.
             or_throw (step_message index totalSteps ''Applying AI restoration for'' planStep) w2 (\<lambda>m2.
             await (executeImageStep ai currentImageBase64 stepPrompt (setProgressMessage m2 w2))
               (\<lambda>newImageBase64 w4.
                  (Fulfilled
                     (Some newImageBase64,
                      completedSteps @
                        [\<lparr>step = own_property planStep ''step'',
                          goal = own_property planStep ''goal'',
                          prompt = stepPrompt,
                          beforeImage = currentImageBase64,
                          afterImage = newImageBase64\<rparr>]),
                   setRestorationSteps
                     (completedSteps @
                        [\<lparr>step = own_property planStep ''step'',
                          goal = own_property planStep ''goal'',
                          prompt = stepPrompt,
                          beforeImage = currentImageBase64,
                          afterImage = newImageBase64\<rparr>]) w4))))))"

fun for_plan ::
  "'g GoogleGenAI \<Rightarrow> string \<Rightarrow> nat \<Rightarrow> nat \<Rightarrow> PlanStep list \<Rightarrow> loop_vars \<Rightarrow> 'g world
     \<Rightarrow> loop_vars promise \<times> 'g world" where
  "for_plan ai userPrompt_arg totalSteps index [] vars w = (Fulfilled vars, w)"
| "for_plan ai userPrompt_arg totalSteps index (planStep # rest) vars w =
     await (loop_body ai userPrompt_arg totalSteps index planStep vars w)
       (\<lambda>vars' w'. for_plan ai userPrompt_arg totalSteps (index + 1) rest vars' w')"

text \<open>
  The \<open>try\<close> block of \<open>handleRestore\<close>, in its two phases: obtaining the client and the
  plan, then running the plan from the preview image.
\<close>

definition planning ::
  "'g env \<Rightarrow> File \<Rightarrow> string \<Rightarrow> 'g world \<Rightarrow> ('g GoogleGenAI \<times> PlanStep list) promise \<times> 'g world" where
  "planning env imageFile_arg userPrompt_arg w =
     (case getAiClient env w of
        (Inl e, w1) \<Rightarrow> (Rejected e, w1)
      | (Inr ai, w1) \<Rightarrow>
          await (generateRestorationPlan env ai imageFile_arg userPrompt_arg w1)
            (\<lambda>plan w2. (Fulfilled (ai, plan), w2)))"

definition restoring ::
  "'g GoogleGenAI \<Rightarrow> string \<Rightarrow> string option \<Rightarrow> PlanStep list \<Rightarrow> 'g world \<Rightarrow> unit promise \<times> 'g world" where
  "restoring ai userPrompt_arg imagePreview_arg plan w =
     await (for_plan ai userPrompt_arg (length plan) 0 plan (imagePreview_arg, [])
              (setStatus Restoring w))
       (\<lambda>vars w4.
          (Fulfilled (), setProgressMessage ''Restoration complete!'' (setStatus Done w4)))"

definition try_block ::
  "'g env \<Rightarrow> File \<Rightarrow> string \<Rightarrow> string option \<Rightarrow> 'g world \<Rightarrow> unit promise \<times> 'g world" where
  "try_block env imageFile_arg userPrompt_arg imagePreview_arg w =
     await (planning env imageFile_arg userPrompt_arg w)
       (\<lambda>(ai, plan) w2. restoring ai userPrompt_arg imagePreview_arg plan w2)"

text \<open>The \<open>catch\<close> block of \<open>handleRestore\<close>.\<close>

definition catch_block :: "exn \<Rightarrow> 'g world \<Rightarrow> 'g world" where
  "catch_block e w =
     setStatus Error
       (setError (Some (if message e = []
                        then ''An unknown error occurred during the restoration process.''
                        else message e)) w)"

text \<open>The statements of \<open>handleRestore\<close> before its \<open>try\<close> block.\<close>

definition run_start :: "'g world \<Rightarrow> 'g world" where
  "run_start w =
     setProgressMessage ''Generating restoration plan...'' (setStatus Planning (resetState w))"

text \<open>
  \<open>handleRestore\<close>, from the world in which it is invoked to the world it leaves: the one
  at its return, or the one in which it waits for a promise that never settles.
\<close>

definition handleRestore :: "'g env \<Rightarrow> 'g world \<Rightarrow> 'g world" where
  "handleRestore env w =
     (case imageFile (ui w) of
        None \<Rightarrow> w
      | Some file \<Rightarrow>
          (case try_block env file (userPrompt (ui w)) (imagePreview (ui w)) (run_start w) of
             (Pending, w') \<Rightarrow> w'
           | (Rejected e, w') \<Rightarrow> catch_block e w'
           | (Fulfilled u, w') \<Rightarrow> w'))"

section \<open>Observations on a run\<close>

text \<open>The sequences published by \<open>setRestorationSteps\<close>, and the requests sent, in order.\<close>

definition publications :: "event list \<Rightarrow> RestorationStep list list" where
  "publications evs = concat (map (\<lambda>e. case e of SetRestorationSteps v \<Rightarrow> [v] | _ \<Rightarrow> []) evs)"

definition requests :: "event list \<Rightarrow> request list" where
  "requests evs = concat (map (\<lambda>e. case e of GenerateContent r \<Rightarrow> [r] | _ \<Rightarrow> []) evs)"

text \<open>Every request carries an image, and every image it carries is declared \<open>image/png\<close>.\<close>

definition png_only :: "request list \<Rightarrow> bool" where
  "png_only reqs \<longleftrightarrow>
     (\<forall>req \<in> set reqs.
        (\<exists>p \<in> set (contents req). inlineData p \<noteq> None) \<and>
        (\<forall>p \<in> set (contents req). \<forall>b.
           inlineData p = Some (Some b) \<longrightarrow> mimeType b = Some ''image/png''))"

definition is_png_data_url :: "string \<Rightarrow> bool" where
  "is_png_data_url a \<longleftrightarrow>
     take (length ''data:image/png;base64,'') a = ''data:image/png;base64,''"

text \<open>The fields of the component's state that the loop and the service never write.\<close>

definition frame :: "app_state \<Rightarrow> app_state \<Rightarrow> bool" where
  "frame u u' \<longleftrightarrow>
     imageFile u' = imageFile u \<and> imagePreview u' = imagePreview u \<and>
     userPrompt u' = userPrompt u \<and> status u' = status u \<and> error u' = error u"

text \<open>A sequence of steps that starts from image \<open>c\<close> and hands each result to the next step.\<close>

fun chained :: "string option \<Rightarrow> RestorationStep list \<Rightarrow> bool" where
  "chained c [] = True"
| "chained c (r # rs) = (beforeImage r = c \<and> chained (Some (afterImage r)) rs)"

definition last_image :: "string option \<Rightarrow> RestorationStep list \<Rightarrow> string option" where
  "last_image c rs = (if rs = [] then c else Some (afterImage (last rs)))"

text \<open>
  \<open>r\<close> is the record of running plan element \<open>planStep\<close> on image \<open>cur\<close>; a list of records
  belongs to a prefix of the plan, run from \<open>cur\<close>.
\<close>

definition step_record :: "PlanStep \<Rightarrow> string option \<Rightarrow> RestorationStep \<Rightarrow> bool" where
  "step_record planStep cur r \<longleftrightarrow>
     step r = own_property planStep ''step'' \<and> goal r = own_property planStep ''goal'' \<and>
     beforeImage r = cur \<and> is_png_data_url (afterImage r)"

fun records_for :: "PlanStep list \<Rightarrow> string option \<Rightarrow> RestorationStep list \<Rightarrow> bool" where
  "records_for ps cur [] = True"
| "records_for [] cur (r # rs) = False"
| "records_for (p # ps) cur (r # rs) =
     (step_record p cur r \<and> records_for ps (Some (afterImage r)) rs)"

subsection \<open>The specification's notions\<close>

text \<open>
  A well-formed \<open>PlanStep\<close> in the words of the specification's data model:
  \<open>{step: integer \<ge> 1, goal: text}\<close>.
\<close>

definition well_formed_PlanStep :: "json \<Rightarrow> bool" where
  "well_formed_PlanStep p \<longleftrightarrow>
     (case own_property p ''step'' of
        Some (JNum n) \<Rightarrow> (case own_property p ''goal'' of Some (JStr g) \<Rightarrow> 1 \<le> n | _ \<Rightarrow> False)
      | _ \<Rightarrow> False)"

text \<open>
  An image payload is present in the response: some part of some candidate has inline data.
\<close>

definition part_has_image :: "part \<Rightarrow> bool" where
  "part_has_image p = (case inlineData p of Some (Some b) \<Rightarrow> True | _ \<Rightarrow> False)"

definition candidate_parts :: "candidate \<Rightarrow> part list" where
  "candidate_parts c =
     (case content c of None \<Rightarrow> [] | Some (Content None) \<Rightarrow> [] | Some (Content (Some ps)) \<Rightarrow> ps)"

definition has_image_payload :: "response \<Rightarrow> bool" where
  "has_image_payload rsp =
     (case candidates rsp of
        None \<Rightarrow> False
      | Some cs \<Rightarrow> list_ex (\<lambda>c. list_ex part_has_image (candidate_parts c)) cs)"

section \<open>Example runs\<close>

text \<open>
  A remote service that answers its \<open>n\<close>-th request with the \<open>n\<close>-th entry of a script, and
  never answers once the script is used up.
\<close>

definition scripted :: "response promise list \<Rightarrow> nat GoogleGenAI" where
  "scripted rs req n = (if n < length rs then rs ! n else Pending, Suc n)"

definition text_response :: "string \<Rightarrow> response promise" where
  "text_response t = Fulfilled \<lparr>text_r = Some t, candidates = None\<rparr>"

definition image_part :: "string \<Rightarrow> part" where
  "image_part d =
     \<lparr>text_p = None, inlineData = Some (Some \<lparr>data = Some d, mimeType = Some ''image/png''\<rparr>)\<rparr>"

definition text_part :: "string \<Rightarrow> part" where
  "text_part t = \<lparr>text_p = Some t, inlineData = None\<rparr>"

definition parts_response :: "part list \<Rightarrow> response promise" where
  "parts_response ps =
     Fulfilled \<lparr>text_r = None, candidates = Some [Candidate (Some (Content (Some ps)))]\<rparr>"

text \<open>Four response texts of the planning call, and what \<open>JSON.parse\<close> makes of them.\<close>

definition plan_text :: string where
  \<open>plan_text = ''[{"step":1,"goal":"Remove scratches"},{"step":2,"goal":"Colorize"}]''\<close>

definition plan_json :: json where
  "plan_json =
     JArr [JObj [(''step'', JNum 1), (''goal'', JStr ''Remove scratches'')],
           JObj [(''step'', JNum 2), (''goal'', JStr ''Colorize'')]]"

definition empty_plan_text :: string where
  "empty_plan_text = ''[]''"

definition no_number_text :: string where
  \<open>no_number_text = ''[{"goal":"Colorize"}]''\<close>

definition no_number_json :: json where
  "no_number_json = JArr [JObj [(''goal'', JStr ''Colorize'')]]"

definition from_two_text :: string where
  \<open>from_two_text = ''[{"step":2,"goal":"Colorize"}]''\<close>

definition from_two_json :: json where
  "from_two_json = JArr [JObj [(''step'', JNum 2), (''goal'', JStr ''Colorize'')]]"

definition demo_parse :: "string \<Rightarrow> json option" where
  "demo_parse =
     map_of [(plan_text, plan_json), (empty_plan_text, JArr []),
             (no_number_text, no_number_json), (from_two_text, from_two_json)]"

definition demo_env :: "string option \<Rightarrow> response promise list \<Rightarrow> nat env" where
  "demo_env key rs =
     \<lparr>API_KEY = key, JSON_parse = demo_parse, new_GoogleGenAI = (\<lambda>k. scripted rs)\<rparr>"

definition demo_file :: File where
  "demo_file =
     \<lparr>file_type = ''image/jpeg'', reader_result = Some ''data:image/jpeg;base64,AAAA''\<rparr>"

definition demo_ui :: app_state where
  "demo_ui =
     \<lparr>imageFile = Some demo_file, imagePreview = Some ''data:image/jpeg;base64,AAAA'',
      userPrompt = ''keep the hat'', status = Idle, error = None, restorationSteps = [],
      progressMessage = []\<rparr>"

definition demo_world :: "nat world" where
  "demo_world = \<lparr>ui = demo_ui, aiRef = None, remote = 0, trace = []\<rparr>"

definition first_record :: RestorationStep where
  "first_record =
     \<lparr>step = Some (JNum 1), goal = Some (JStr ''Remove scratches''),
      prompt = ''fix scratches...'', beforeImage = Some ''data:image/jpeg;base64,AAAA'',
      afterImage = ''data:image/png;base64,BBBB''\<rparr>"

definition second_record :: RestorationStep where
  "second_record =
     \<lparr>step = Some (JNum 2), goal = Some (JStr ''Colorize''),
      prompt = ''add color...'', beforeImage = Some ''data:image/png;base64,BBBB'',
      afterImage = ''data:image/png;base64,CCCC''\<rparr>"

text \<open>Both steps of the two-step plan succeed.\<close>

definition both_steps :: "response promise list" where
  "both_steps =
     [text_response plan_text,
      text_response ''fix scratches...'', parts_response [image_part ''BBBB''],
      text_response ''add color...'', parts_response [image_part ''CCCC'']]"

text \<open>The edit call of step 2 is rejected.\<close>

definition second_edit_fails :: "response promise list" where
  "second_edit_fails =
     [text_response plan_text,
      text_response ''fix scratches...'', parts_response [image_part ''BBBB''],
      text_response ''add color...'', Rejected (JsError ''The model is overloaded.'')]"

text \<open>The Gateway answers the planning call with an empty sequence.\<close>

definition empty_plan :: "response promise list" where
  "empty_plan = [text_response empty_plan_text]"

text \<open>The elements of \<open>plan_json\<close>.\<close>

definition plan_list :: "json list" where
  "plan_list = [JObj [(''step'', JNum 1), (''goal'', JStr ''Remove scratches'')],
           JObj [(''step'', JNum 2), (''goal'', JStr ''Colorize'')]]"

text \<open>The planning call is answered with a sequence whose element has no step number.\<close>

definition no_number :: "response promise list" where
  "no_number = [text_response no_number_text]"

text \<open>The planning call is answered with a one-step plan numbered 2; the step succeeds.\<close>

definition from_two :: "response promise list" where
  "from_two =
     [text_response from_two_text,
      text_response ''add color...'', parts_response [image_part ''CCCC'']]"

text \<open>A response to the edit call whose image comes second, after a text part.\<close>

definition text_then_image :: response where
  "text_then_image =
     \<lparr>text_r = Some ''Here is the restored photo.'',
      candidates = Some [Candidate (Some (Content (Some
        [text_part ''Here is the restored photo.'', image_part ''BBBB''])))]\<rparr>"

text \<open>The media types a request declares for the images it carries.\<close>

definition declared_types :: "request \<Rightarrow> string option list" where
  "declared_types req =
     concat (map (\<lambda>p. case inlineData p of Some (Some b) \<Rightarrow> [mimeType b] | _ \<Rightarrow> [])
       (contents req))"

text \<open>The image data a request carries.\<close>

definition carried_data :: "request \<Rightarrow> string option list" where
  "carried_data req =
     concat (map (\<lambda>p. case inlineData p of Some (Some b) \<Rightarrow> [data b] | _ \<Rightarrow> [])
       (contents req))"

text \<open>
  A second upload while the preview of the first is shown: the file \<open>demo_file\<close> is chosen
  and its preview loads, then \<open>second_file\<close> is chosen and its reader has not finished.
\<close>

definition second_file :: File where
  "second_file =
     \<lparr>file_type = ''image/png'', reader_result = Some ''data:image/png;base64,ZZZZ''\<rparr>"

definition initial_world :: "nat world" where
  "initial_world =
     \<lparr>ui = \<lparr>imageFile = None, imagePreview = None, userPrompt = [], status = Idle,
             error = None, restorationSteps = [], progressMessage = []\<rparr>,
      aiRef = None, remote = 0, trace = []\<rparr>"

definition stale_world :: "nat world" where
  "stale_world =
     handleFileChange (Some second_file)
       (onloadend demo_file (handleFileChange (Some demo_file) initial_world))"

section \<open>Properties of the model\<close>

lemma is_png_data_url_iff: "is_png_data_url a \<longleftrightarrow> (\<exists>d. a = ''data:image/png;base64,'' @ d)"
proof
  assume "is_png_data_url a"
  then have "a = ''data:image/png;base64,'' @ drop (length ''data:image/png;base64,'') a"
    unfolding is_png_data_url_def by (metis append_take_drop_id)
  then show "\<exists>d. a = ''data:image/png;base64,'' @ d" ..
next
  assume "\<exists>d. a = ''data:image/png;base64,'' @ d"
  then show "is_png_data_url a"
    unfolding is_png_data_url_def by auto
qed

lemma chained_snoc: "chained c (rs @ [r]) = (chained c rs \<and> beforeImage r = last_image c rs)"
  by (induction rs arbitrary: c) (auto simp: last_image_def)

lemma chained_nth:
  "chained c rs \<Longrightarrow> Suc i < length rs \<Longrightarrow> beforeImage (rs ! Suc i) = Some (afterImage (rs ! i))"
proof (induction rs arbitrary: c i)
  case Nil
  then show ?case by simp
next
  case (Cons r rs)
  show ?case
  proof (cases i)
    case 0
    with Cons.prems show ?thesis by (cases rs) auto
  next
    case (Suc j)
    with Cons.prems Cons.IH [of "Some (afterImage r)" j] show ?thesis by simp
  qed
qed

lemma chained_first: "chained c rs \<Longrightarrow> rs \<noteq> [] \<Longrightarrow> beforeImage (rs ! 0) = c"
  by (cases rs) auto

lemma setters_ui [simp]:
  "ui (setStatus s w) = (ui w)\<lparr>status := s\<rparr>"
  "ui (setError e w) = (ui w)\<lparr>error := e\<rparr>"
  "ui (setRestorationSteps rs w) = (ui w)\<lparr>restorationSteps := rs\<rparr>"
  "ui (setProgressMessage m w) = (ui w)\<lparr>progressMessage := m\<rparr>"
  by (simp_all add: setStatus_def setError_def setRestorationSteps_def setProgressMessage_def)

lemma setters_trace [simp]:
  "trace (setStatus s w) = trace w @ [SetStatus s]"
  "trace (setError e w) = trace w @ [SetError e]"
  "trace (setRestorationSteps rs w) = trace w @ [SetRestorationSteps rs]"
  "trace (setProgressMessage m w) = trace w @ [SetProgressMessage m]"
  by (simp_all add: setStatus_def setError_def setRestorationSteps_def setProgressMessage_def)

lemma setters_aiRef [simp]:
  "aiRef (setStatus s w) = aiRef w"
  "aiRef (setError e w) = aiRef w"
  "aiRef (setRestorationSteps rs w) = aiRef w"
  "aiRef (setProgressMessage m w) = aiRef w"
  by (simp_all add: setStatus_def setError_def setRestorationSteps_def setProgressMessage_def)

lemma generateContent_effect:
  "generateContent ai req w = (r, w') \<Longrightarrow>
     ui w' = ui w \<and> aiRef w' = aiRef w \<and> trace w' = trace w @ [GenerateContent req]"
  by (auto simp: generateContent_def split: prod.splits)

lemma publications_simps [simp]:
  "publications [] = []"
  "publications (evs @ evs') = publications evs @ publications evs'"
  "publications (SetRestorationSteps v # evs) = v # publications evs"
  "publications (SetStatus s # evs) = publications evs"
  "publications (SetError e # evs) = publications evs"
  "publications (SetProgressMessage m # evs) = publications evs"
  "publications (GenerateContent r # evs) = publications evs"
  by (simp_all add: publications_def)

lemma requests_simps [simp]:
  "requests [] = []"
  "requests (evs @ evs') = requests evs @ requests evs'"
  "requests (GenerateContent r # evs) = r # requests evs"
  "requests (SetStatus s # evs) = requests evs"
  "requests (SetError e # evs) = requests evs"
  "requests (SetProgressMessage m # evs) = requests evs"
  "requests (SetRestorationSteps v # evs) = requests evs"
  by (simp_all add: requests_def)

lemma png_only_simps [simp]:
  "png_only []"
  "png_only (xs @ ys) = (png_only xs \<and> png_only ys)"
  by (auto simp: png_only_def)

lemma frame_refl [simp]: "frame u u"
  by (simp add: frame_def)

lemma frame_trans: "frame u u' \<Longrightarrow> frame u' u'' \<Longrightarrow> frame u u''"
  by (simp add: frame_def)

lemma generateStepPrompt_effect:
  assumes "generateStepPrompt ai cur g up w = (r, w')"
  shows "ui w' = ui w \<and> aiRef w' = aiRef w \<and>
         (\<exists>evs. trace w' = trace w @ evs \<and> publications evs = [] \<and> png_only (requests evs))"
  using assms
  by (auto simp: generateStepPrompt_def or_throw_def await_def base64ToGenerativePart_def
      png_only_def prompt_request_def
      split: sum.splits prod.splits promise.splits option.splits
      dest!: generateContent_effect)

lemma executeImageStep_effect:
  assumes "executeImageStep ai cur p w = (r, w')"
  shows "ui w' = ui w \<and> aiRef w' = aiRef w \<and> (\<forall>a. r = Fulfilled a \<longrightarrow> is_png_data_url a) \<and>
         (\<exists>evs. trace w' = trace w @ evs \<and> publications evs = [] \<and> png_only (requests evs))"
  using assms
  by (auto simp: executeImageStep_def or_throw_def await_def base64ToGenerativePart_def
      png_only_def is_png_data_url_iff edit_request_def
      split: sum.splits prod.splits promise.splits option.splits
      dest!: generateContent_effect)

lemma loop_body_effect:
  assumes "loop_body ai up n i planStep (cur, cs) w = (r, w')"
  shows "\<exists>evs. trace w' = trace w @ evs \<and> aiRef w' = aiRef w \<and> frame (ui w) (ui w') \<and>
           png_only (requests evs) \<and>
           (case r of
              Fulfilled (cur', cs') \<Rightarrow>
                (\<exists>x. cs' = cs @ [x] \<and> step_record planStep cur x \<and> cur' = Some (afterImage x)) \<and>
                restorationSteps (ui w') = cs' \<and> publications evs = [cs']
            | _ \<Rightarrow> restorationSteps (ui w') = restorationSteps (ui w) \<and> publications evs = [])"
proof -
  show ?thesis
    using assms
    apply (simp add: loop_body_def or_throw_def await_def split: sum.splits prod.splits promise.splits)
    apply (auto simp: frame_def step_record_def
        dest!: generateStepPrompt_effect executeImageStep_effect)
    done
qed

lemma publications_grow:
  "(cs @ [x]) # map (\<lambda>k. (cs @ [x]) @ take (Suc k) new) [0..<length new] =
   map (\<lambda>k. cs @ take (Suc k) (x # new)) [0..<length (x # new)]"
  by (simp add: map_upt_Suc del: upt_Suc)

lemma last_image_Cons: "last_image (Some (afterImage x)) new = last_image cur (x # new)"
  by (simp add: last_image_def)

lemma for_plan_effect:
  assumes "for_plan ai up n i plan (cur, cs) w = (r, w')"
    and "restorationSteps (ui w) = cs"
  shows "\<exists>evs new. trace w' = trace w @ evs \<and> aiRef w' = aiRef w \<and> frame (ui w) (ui w') \<and>
           png_only (requests evs) \<and> restorationSteps (ui w') = cs @ new \<and>
           records_for plan cur new \<and>
           publications evs = map (\<lambda>k. cs @ take (Suc k) new) [0..<length new] \<and>
           (case r of
              Fulfilled (cur', cs') \<Rightarrow>
                cs' = cs @ new \<and> length new = length plan \<and> cur' = last_image cur new
            | _ \<Rightarrow> length new < length plan)"
  using assms
proof (induction plan arbitrary: i cur cs w)
  case Nil
  then have "r = Fulfilled (cur, cs)" "w' = w" by simp_all
  then show ?case
    using Nil.prems(2) by (intro exI [of _ "[]"]) (simp add: last_image_def)
next
  case (Cons p ps)
  obtain r1 w1 where body: "loop_body ai up n i p (cur, cs) w = (r1, w1)"
    by (cases "loop_body ai up n i p (cur, cs) w")
  from loop_body_effect [OF body] obtain evs1 where
    e1: "trace w1 = trace w @ evs1" "aiRef w1 = aiRef w" "frame (ui w) (ui w1)"
      "png_only (requests evs1)"
    and c1: "case r1 of
              Fulfilled (cur', cs') \<Rightarrow>
                (\<exists>x. cs' = cs @ [x] \<and> step_record p cur x \<and> cur' = Some (afterImage x)) \<and>
                restorationSteps (ui w1) = cs' \<and> publications evs1 = [cs']
            | _ \<Rightarrow> restorationSteps (ui w1) = restorationSteps (ui w) \<and> publications evs1 = []"
    by blast
  show ?case
  proof (cases "\<exists>v. r1 = Fulfilled v")
    case False
    with Cons.prems(1) body have "r = r1" "w' = w1"
      by (auto simp: await_def split: promise.splits)
    with False e1 c1 Cons.prems(2) show ?thesis
      by (intro exI [of _ evs1] exI [of _ "[]"]) (auto split: promise.splits)
  next
    case True
    then obtain cur1 cs1 where r1: "r1 = Fulfilled (cur1, cs1)" by auto
    with c1 obtain x where x: "cs1 = cs @ [x]" "step_record p cur x" "cur1 = Some (afterImage x)"
      and w1: "restorationSteps (ui w1) = cs1" "publications evs1 = [cs1]"
      by auto
    from Cons.prems(1) body r1 have rest: "for_plan ai up n (i + 1) ps (cur1, cs1) w1 = (r, w')"
      by (simp add: await_def)
    from Cons.IH [OF rest w1(1)] obtain evs2 new2 where
      e2: "trace w' = trace w1 @ evs2" "aiRef w' = aiRef w1" "frame (ui w1) (ui w')"
        "png_only (requests evs2)" "restorationSteps (ui w') = cs1 @ new2"
        "records_for ps cur1 new2"
        "publications evs2 = map (\<lambda>k. cs1 @ take (Suc k) new2) [0..<length new2]"
      and c2: "case r of
              Fulfilled (cur', cs') \<Rightarrow>
                cs' = cs1 @ new2 \<and> length new2 = length ps \<and> cur' = last_image cur1 new2
            | _ \<Rightarrow> length new2 < length ps"
      by blast
    have pub: "publications (evs1 @ evs2) =
        map (\<lambda>k. cs @ take (Suc k) (x # new2)) [0..<length (x # new2)]"
      using w1(2) e2(7) publications_grow [of cs x new2] by (simp add: x(1))
    have fin: "case r of
              Fulfilled (cur', cs') \<Rightarrow>
                cs' = cs @ (x # new2) \<and> length (x # new2) = length (p # ps) \<and>
                cur' = last_image cur (x # new2)
            | _ \<Rightarrow> length (x # new2) < length (p # ps)"
      using c2 x(1,3) last_image_Cons [of x new2 cur] by (auto split: promise.splits)
    show ?thesis
      apply (intro exI [of _ "evs1 @ evs2"] exI [of _ "x # new2"])
      using e1 e2 x pub fin frame_trans [OF e1(3) e2(3)]
      apply (intro conjI)
      apply simp_all
      done
  qed
qed

lemma generateRestorationPlan_effect:
  assumes "generateRestorationPlan env ai file up w = (r, w')"
  shows "ui w' = ui w \<and> aiRef w' = aiRef w \<and> (\<forall>plan. r = Fulfilled plan \<longrightarrow> plan \<noteq> []) \<and>
         (\<exists>evs. trace w' = trace w @ evs \<and> publications evs = [] \<and> length (requests evs) \<le> 1 \<and>
            ((\<exists>v. r = Fulfilled v) \<longrightarrow> length (requests evs) = 1))"
  using assms
  by (auto simp: generateRestorationPlan_def await_def parse_plan_def
      split: sum.splits prod.splits promise.splits option.splits json.splits if_splits
      dest!: generateContent_effect)

lemma getAiClient_effect:
  assumes "getAiClient env w = (r, w')"
  shows "ui w' = ui w \<and> trace w' = trace w \<and> remote w' = remote w"
  using assms by (auto simp: getAiClient_def split: option.splits if_splits)

lemma planning_effect:
  assumes "planning env file up w = (r, w')"
  shows "ui w' = ui w \<and> (\<forall>ai plan. r = Fulfilled (ai, plan) \<longrightarrow> plan \<noteq> []) \<and>
         (\<exists>evs. trace w' = trace w @ evs \<and> publications evs = [] \<and> length (requests evs) \<le> 1 \<and>
            ((\<exists>v. r = Fulfilled v) \<longrightarrow> length (requests evs) = 1))"
proof -
  obtain rc wc where c: "getAiClient env w = (rc, wc)" by (cases "getAiClient env w")
  note ce = getAiClient_effect [OF c]
  show ?thesis
  proof (cases rc)
    case (Inl e)
    with assms c ce show ?thesis by (auto simp: planning_def)
  next
    case (Inr ai)
    obtain rg wg where g: "generateRestorationPlan env ai file up wc = (rg, wg)"
      by (cases "generateRestorationPlan env ai file up wc")
    from assms c Inr g have "w' = wg"
      and "\<forall>ai plan. r = Fulfilled (ai, plan) \<longrightarrow> rg = Fulfilled plan"
      and "(\<exists>v. r = Fulfilled v) \<longrightarrow> (\<exists>v. rg = Fulfilled v)"
      by (auto simp: planning_def await_def split: promise.splits)
    with generateRestorationPlan_effect [OF g] ce show ?thesis by auto
  qed
qed

lemma run_start_ui:
  "ui (run_start w) = (ui w)\<lparr>status := Planning, error := None, restorationSteps := [],
      progressMessage := ''Generating restoration plan...''\<rparr>"
  by (simp add: run_start_def resetState_def)

lemma run_start_trace:
  "trace (run_start w) = trace w @
     [SetStatus Idle, SetError None, SetRestorationSteps [], SetProgressMessage [],
      SetStatus Planning, SetProgressMessage ''Generating restoration plan...'']"
  by (simp add: run_start_def resetState_def)

lemma handleRestore_unfold:
  assumes "imageFile (ui w) = Some file"
  shows "handleRestore env w =
     (case planning env file (userPrompt (ui w)) (run_start w) of
        (Pending, wp) \<Rightarrow> wp
      | (Rejected e, wp) \<Rightarrow> catch_block e wp
      | (Fulfilled (ai, plan), wp) \<Rightarrow>
          (case for_plan ai (userPrompt (ui w)) (length plan) 0 plan (imagePreview (ui w), [])
                  (setStatus Restoring wp) of
             (Pending, wl) \<Rightarrow> wl
           | (Rejected e, wl) \<Rightarrow> catch_block e wl
           | (Fulfilled vars, wl) \<Rightarrow>
               setProgressMessage ''Restoration complete!'' (setStatus Done wl)))"
  using assms
  by (simp add: handleRestore_def try_block_def restoring_def await_def
      split: prod.splits promise.splits)

text \<open>The run when planning does not yield a plan.\<close>

lemma handleRestore_no_plan:
  assumes img: "imageFile (ui w) = Some file"
    and pl: "planning env file (userPrompt (ui w)) (run_start w) = (rp, wp)"
    and nf: "\<forall>v. rp \<noteq> Fulfilled v"
  shows "restorationSteps (ui (handleRestore env w)) = [] \<and>
         status (ui (handleRestore env w)) = (if rp = Pending then Planning else Error) \<and>
         (\<exists>evs. trace (handleRestore env w) = trace w @ evs \<and> publications evs = [[]] \<and>
            length (requests evs) \<le> 1)"
proof -
  from planning_effect [OF pl] obtain evs where
    p: "ui wp = ui (run_start w)" "trace wp = trace (run_start w) @ evs" "publications evs = []"
      "length (requests evs) \<le> 1"
    by blast
  show ?thesis
  proof (cases rp)
    case Pending
    with img pl have "handleRestore env w = wp" by (simp add: handleRestore_unfold)
    with p Pending show ?thesis by (simp add: run_start_ui run_start_trace)
  next
    case (Rejected e)
    with img pl have "handleRestore env w = catch_block e wp" by (simp add: handleRestore_unfold)
    with p Rejected show ?thesis by (simp add: run_start_ui run_start_trace catch_block_def)
  next
    case (Fulfilled v)
    with nf show ?thesis by simp
  qed
qed

lemma for_plan_from_empty:
  assumes "for_plan ai up n i plan (cur, []) w = (r, w')"
    and "restorationSteps (ui w) = []"
  shows "\<exists>evs new. trace w' = trace w @ evs \<and> frame (ui w) (ui w') \<and>
           png_only (requests evs) \<and> restorationSteps (ui w') = new \<and>
           records_for plan cur new \<and>
           publications evs = map (\<lambda>k. take (Suc k) new) [0..<length new] \<and>
           (case r of Fulfilled v \<Rightarrow> length new = length plan | _ \<Rightarrow> length new < length plan)"
proof -
  from for_plan_effect [OF assms] obtain evs new where
    "trace w' = trace w @ evs \<and> aiRef w' = aiRef w \<and> frame (ui w) (ui w') \<and>
           png_only (requests evs) \<and> restorationSteps (ui w') = [] @ new \<and>
           records_for plan cur new \<and>
           publications evs = map (\<lambda>k. [] @ take (Suc k) new) [0..<length new] \<and>
           (case r of
              Fulfilled (cur', cs') \<Rightarrow>
                cs' = [] @ new \<and> length new = length plan \<and> cur' = last_image cur new
            | _ \<Rightarrow> length new < length plan)"
    by blast
  then show ?thesis
    by (intro exI [of _ evs] exI [of _ new]) (auto split: promise.splits)
qed

text \<open>The run once planning has yielded a plan.\<close>

lemma handleRestore_with_plan:
  assumes img: "imageFile (ui w) = Some file"
    and pl: "planning env file (userPrompt (ui w)) (run_start w) = (Fulfilled (ai, plan), wp)"
    and lp: "for_plan ai (userPrompt (ui w)) (length plan) 0 plan (imagePreview (ui w), [])
               (setStatus Restoring wp) = (rl, wl)"
  shows "\<exists>evs new. trace (handleRestore env w) = trace w @ evs \<and>
           restorationSteps (ui (handleRestore env w)) = new \<and>
           records_for plan (imagePreview (ui w)) new \<and> plan \<noteq> [] \<and>
           publications evs = [] # map (\<lambda>k. take (Suc k) new) [0..<length new] \<and>
           png_only (tl (requests evs)) \<and>
           status (ui (handleRestore env w)) =
             (case rl of Pending \<Rightarrow> Restoring | Rejected e \<Rightarrow> Error | Fulfilled v \<Rightarrow> Done) \<and>
           (case rl of Fulfilled v \<Rightarrow> length new = length plan | _ \<Rightarrow> length new < length plan)"
proof -
  from planning_effect [OF pl] obtain evs1 where
    p: "ui wp = ui (run_start w)" "trace wp = trace (run_start w) @ evs1" "publications evs1 = []"
      "length (requests evs1) = 1" "plan \<noteq> []"
    by blast
  from p(4) obtain preq where preq: "requests evs1 = [preq]"
    by (cases "requests evs1") auto
  have r0: "restorationSteps (ui (setStatus Restoring wp)) = []"
    using p(1) by (simp add: run_start_ui)
  from for_plan_from_empty [OF lp r0] obtain evs2 new where
    l: "trace wl = trace (setStatus Restoring wp) @ evs2"
      "frame (ui (setStatus Restoring wp)) (ui wl)"
      "png_only (requests evs2)" "restorationSteps (ui wl) = new"
      "records_for plan (imagePreview (ui w)) new"
      "publications evs2 = map (\<lambda>k. take (Suc k) new) [0..<length new]"
      "case rl of Fulfilled v \<Rightarrow> length new = length plan | _ \<Rightarrow> length new < length plan"
    by blast
  have st: "status (ui wl) = Restoring"
    using l(2) by (simp add: frame_def)
  have tl: "png_only (tl (requests evs1 @ requests evs2))"
    using preq l(3) by simp
  have h: "handleRestore env w =
      (case rl of Pending \<Rightarrow> wl | Rejected e \<Rightarrow> catch_block e wl
       | Fulfilled v \<Rightarrow> setProgressMessage ''Restoration complete!'' (setStatus Done wl))"
    using img pl lp by (simp add: handleRestore_unfold split: promise.splits)
  show ?thesis
  proof (cases rl)
    case Pending
    with h l p st tl show ?thesis
      by (intro exI [of _ "drop (length (trace w)) (trace wl)"] exI [of _ new])
        (simp add: run_start_trace)
  next
    case (Rejected e)
    with h l p st tl show ?thesis
      by (intro exI [of _ "drop (length (trace w)) (trace (catch_block e wl))"] exI [of _ new])
        (simp add: run_start_trace catch_block_def)
  next
    case (Fulfilled v)
    with h l p st tl show ?thesis
      by (intro exI [of _ "drop (length (trace w)) (trace (handleRestore env w))"] exI [of _ new])
        (auto simp add: run_start_trace)
  qed
qed




lemma records_for_length: "records_for plan cur new \<Longrightarrow> length new \<le> length plan"
  by (induction plan cur new rule: records_for.induct) auto

lemma records_for_chained: "records_for plan cur new \<Longrightarrow> chained cur new"
  by (induction plan cur new rule: records_for.induct) (auto simp: step_record_def)

lemma records_for_step:
  "records_for plan cur new \<Longrightarrow>
     map step new = map (\<lambda>p. own_property p ''step'') (take (length new) plan)"
  by (induction plan cur new rule: records_for.induct) (auto simp: step_record_def)


lemma records_for_png:
  "records_for plan cur new \<Longrightarrow> r \<in> set new \<Longrightarrow> is_png_data_url (afterImage r)"
  by (induction plan cur new rule: records_for.induct) (auto simp: step_record_def)

subsection \<open>The example runs, evaluated\<close>

lemma both_steps_run:
  "ui (handleRestore (demo_env (Some ''key'') both_steps) demo_world) =
     demo_ui\<lparr>status := Done, restorationSteps := [first_record, second_record],
       progressMessage := ''Restoration complete!''\<rparr>"
  by code_simp


lemma demo_planning:
  "fst (planning (demo_env (Some ''key'') rs) demo_file ''keep the hat'' (run_start demo_world)) =
     (case (if 0 < length rs then rs ! 0 else Pending) of
        Pending \<Rightarrow> Pending
      | Rejected e \<Rightarrow> Rejected e
      | Fulfilled rsp \<Rightarrow>
         (case parse_plan (demo_env (Some ''key'') rs) rsp of
            Inr plan \<Rightarrow> Fulfilled (scripted rs, plan)
          | Inl e \<Rightarrow> Rejected (JsError ''Could not generate a valid restoration plan. The AI's response was not in the expected format.'')))"
  by (simp add: planning_def getAiClient_def demo_env_def demo_world_def run_start_def
      resetState_def setStatus_def setError_def setRestorationSteps_def setProgressMessage_def
      generateRestorationPlan_def fileToGenerativePart_def demo_file_def await_def
      generateContent_def scripted_def
      split: promise.splits sum.splits)

lemma demo_world_fields:
  "imageFile (ui demo_world) = Some demo_file"
  "userPrompt (ui demo_world) = ''keep the hat''"
  "imagePreview (ui demo_world) = Some ''data:image/jpeg;base64,AAAA''"
  by (simp_all add: demo_world_def demo_ui_def)

lemma demo_parse_plan:
  "parse_plan (demo_env key rs) \<lparr>text_r = Some plan_text, candidates = None\<rparr> = Inr plan_list"
  "parse_plan (demo_env key rs) \<lparr>text_r = Some empty_plan_text, candidates = None\<rparr> =
     Inl (JsError ''Invalid plan format received from API.'')"
  by (simp_all add: parse_plan_def demo_env_def demo_parse_def plan_text_def plan_json_def
      plan_list_def empty_plan_text_def)

lemma first_part_payload:
  assumes "first_part rsp = Inr (Some p)" and "inlineData p = Some (Some b)"
  shows "has_image_payload rsp"
  using assms
  by (auto simp: first_part_def has_image_payload_def candidate_parts_def part_has_image_def
      split: option.splits list.splits content.splits)

lemma both_steps_requests:
  "map declared_types
     (requests (trace (handleRestore (demo_env (Some ''key'') both_steps) demo_world))) =
   [[Some ''image/jpeg''], [Some ''image/png''], [Some ''image/png''], [Some ''image/png''],
    [Some ''image/png'']]"
  by code_simp

section \<open>The claims\<close>

text \<open>
  A run is an invocation of \<open>handleRestore\<close> with an image present; it completes
  successfully when it leaves the status \<open>done\<close>. Then the published sequence of steps is
  not empty, the \<open>beforeImage\<close> of its first entry is the preview the component held when
  the run started, and the \<open>afterImage\<close> of every entry is the \<open>beforeImage\<close> of the next
  one. Once the reader of the chosen file has finished, that preview is the chosen file.
\<close>

lemma handleRestore_chains_from_preview:
  assumes img: "imageFile (ui w) = Some file"
    and ok: "status (ui (handleRestore env w)) = Done"
  shows "restorationSteps (ui (handleRestore env w)) \<noteq> [] \<and>
         beforeImage (restorationSteps (ui (handleRestore env w)) ! 0) = imagePreview (ui w) \<and>
         (\<forall>i. Suc i < length (restorationSteps (ui (handleRestore env w))) \<longrightarrow>
            beforeImage (restorationSteps (ui (handleRestore env w)) ! Suc i) =
              Some (afterImage (restorationSteps (ui (handleRestore env w)) ! i)))"
proof -
  obtain rp wp where pl: "planning env file (userPrompt (ui w)) (run_start w) = (rp, wp)"
    by (cases "planning env file (userPrompt (ui w)) (run_start w)")
  show ?thesis
  proof (cases "\<exists>v. rp = Fulfilled v")
    case False
    with handleRestore_no_plan [OF img pl] ok show ?thesis by (auto split: if_splits)
  next
    case True
    then obtain ai plan where rp: "rp = Fulfilled (ai, plan)" by auto
    obtain rl wl where lp:
      "for_plan ai (userPrompt (ui w)) (length plan) 0 plan (imagePreview (ui w), [])
         (setStatus Restoring wp) = (rl, wl)"
      by (cases "for_plan ai (userPrompt (ui w)) (length plan) 0 plan (imagePreview (ui w), [])
         (setStatus Restoring wp)")
    from handleRestore_with_plan [OF img pl [unfolded rp] lp] obtain new where
      n: "restorationSteps (ui (handleRestore env w)) = new"
        "records_for plan (imagePreview (ui w)) new" "plan \<noteq> []"
        "status (ui (handleRestore env w)) =
           (case rl of Pending \<Rightarrow> Restoring | Rejected e \<Rightarrow> Error | Fulfilled v \<Rightarrow> Done)"
        "case rl of Fulfilled v \<Rightarrow> length new = length plan | _ \<Rightarrow> length new < length plan"
      by blast
    from n(4) ok obtain v where "rl = Fulfilled v" by (cases rl) auto
    with n(5) n(3) have ne: "new \<noteq> []" by auto
    note ch = records_for_chained [OF n(2)]
    show ?thesis
      unfolding n(1) using ne chained_first [OF ch ne] chained_nth [OF ch] by blast
  qed
qed

lemma preview_loaded:
  "imageFile (ui (onloadend file (handleFileChange (Some file) w))) = Some file \<and>
   imagePreview (ui (onloadend file (handleFileChange (Some file) w))) = reader_result file \<and>
   status (ui (onloadend file (handleFileChange (Some file) w))) = Idle"
  by (simp add: onloadend_def handleFileChange_def resetState_def)

lemma handleRestore_chains_loaded_preview:
  assumes "imageFile (ui w) = Some file"
    and "imagePreview (ui w) = reader_result file"
    and "status (ui (handleRestore env w)) = Done"
  shows "restorationSteps (ui (handleRestore env w)) \<noteq> [] \<and>
         beforeImage (restorationSteps (ui (handleRestore env w)) ! 0) = reader_result file \<and>
         (\<forall>i. Suc i < length (restorationSteps (ui (handleRestore env w))) \<longrightarrow>
            beforeImage (restorationSteps (ui (handleRestore env w)) ! Suc i) =
              Some (afterImage (restorationSteps (ui (handleRestore env w)) ! i)))"
  using handleRestore_chains_from_preview [OF assms(1,3)] assms(2) by simp

text \<open>
  C1 fails on a run the component can make. A first file is chosen and its preview loads;
  a second file is chosen, and \<open>handleRestore\<close> is invoked before the second reader has
  finished: the button is shown, \<open>imageFile\<close> is the second file and \<open>imagePreview\<close> still
  the first. The planning request carries the second file, every step works on the first
  one, and the run completes: the \<open>beforeImage\<close> of the first entry is the image of the
  first file, not the uploaded one.
\<close>

theorem handleRestore_stale_preview:
  "restore_button_shown (ui stale_world) \<and>
   imageFile (ui stale_world) = Some second_file \<and>
   reader_result second_file = Some ''data:image/png;base64,ZZZZ'' \<and>
   imagePreview (ui stale_world) = Some ''data:image/jpeg;base64,AAAA'' \<and>
   status (ui (handleRestore (demo_env (Some ''key'') both_steps) stale_world)) = Done \<and>
   map carried_data
     (requests (trace (handleRestore (demo_env (Some ''key'') both_steps) stale_world))) =
     [[Some ''ZZZZ''], [Some ''AAAA''], [Some ''AAAA''], [Some ''BBBB''], [Some ''BBBB'']] \<and>
   map beforeImage
     (restorationSteps (ui (handleRestore (demo_env (Some ''key'') both_steps) stale_world))) =
     [Some ''data:image/jpeg;base64,AAAA'', Some ''data:image/png;base64,BBBB'']"
  by code_simp



text \<open>
  C3, as stated, fails: the planning operation returns a sequence whose only element has
  no step number, and which is no well-formed \<open>PlanStep\<close>.
\<close>

theorem generateRestorationPlan_unchecked_elements:
  "fst (generateRestorationPlan (demo_env (Some ''key'') no_number) (scripted no_number)
          demo_file ''keep the hat'' demo_world) =
     Fulfilled [JObj [(''goal'', JStr ''Colorize'')]] \<and>
   \<not> well_formed_PlanStep (JObj [(''goal'', JStr ''Colorize'')])"
  by code_simp

text \<open>
  C3, amended. Once the Gateway has answered the planning request, \<open>generateRestorationPlan\<close>
  returns the parsed response exactly when the response text parses to a non-empty array,
  whatever its elements are; for every other response (no text, a text that does not parse,
  a value that is not an array, an empty array) it fails with the one error \<open>Could not
  generate a valid restoration plan\<close>.
\<close>

theorem generateRestorationPlan_nonempty_array:
  assumes "fileToGenerativePart file = Some imagePart"
    and "generateContent ai (plan_request imagePart up) w = (Fulfilled rsp, w1)"
  shows "generateRestorationPlan env ai file up w =
     (case JSON_parse env (case text_r rsp of None \<Rightarrow> ''undefined'' | Some t \<Rightarrow> t) of
        Some (JArr (p # ps)) \<Rightarrow> (Fulfilled (p # ps), w1)
      | _ \<Rightarrow> (Rejected (JsError ''Could not generate a valid restoration plan. The AI's response was not in the expected format.''), w1))"
  using assms
  by (simp add: generateRestorationPlan_def await_def parse_plan_def
      split: option.splits json.splits list.splits)

theorem generateRestorationPlan_nonempty_array_witness:
  "generateRestorationPlan (demo_env (Some ''key'') no_number) (scripted no_number)
          demo_file ''keep the hat'' demo_world =
     (Fulfilled [JObj [(''goal'', JStr ''Colorize'')]],
      demo_world\<lparr>remote := 1,
        trace := [GenerateContent (plan_request
          \<lparr>text_p = None, inlineData = Some (Some \<lparr>data = Some ''AAAA'', mimeType = Some ''image/jpeg''\<rparr>)\<rparr>
          ''keep the hat'')]\<rparr>) \<and>
   generateRestorationPlan (demo_env (Some ''key'') empty_plan) (scripted empty_plan)
          demo_file ''keep the hat'' demo_world =
     (Rejected (JsError ''Could not generate a valid restoration plan. The AI's response was not in the expected format.''),
      demo_world\<lparr>remote := 1,
        trace := [GenerateContent (plan_request
          \<lparr>text_p = None, inlineData = Some (Some \<lparr>data = Some ''AAAA'', mimeType = Some ''image/jpeg''\<rparr>)\<rparr>
          ''keep the hat'')]\<rparr>)"
proof -
  let ?part = "\<lparr>text_p = None,
    inlineData = Some (Some \<lparr>data = Some ''AAAA'', mimeType = Some ''image/jpeg''\<rparr>)\<rparr>"
  let ?w1 = "demo_world\<lparr>remote := 1,
        trace := [GenerateContent (plan_request ?part ''keep the hat'')]\<rparr>"
  have f: "fileToGenerativePart demo_file = Some ?part"
    by (simp add: fileToGenerativePart_def demo_file_def)
  have g1: "generateContent (scripted no_number) (plan_request ?part ''keep the hat'') demo_world =
      (Fulfilled \<lparr>text_r = Some no_number_text, candidates = None\<rparr>, ?w1)"
    by (simp add: generateContent_def scripted_def no_number_def text_response_def demo_world_def)
  have g2: "generateContent (scripted empty_plan) (plan_request ?part ''keep the hat'') demo_world =
      (Fulfilled \<lparr>text_r = Some empty_plan_text, candidates = None\<rparr>, ?w1)"
    by (simp add: generateContent_def scripted_def empty_plan_def text_response_def demo_world_def)
  have p: "demo_parse no_number_text = Some (JArr [JObj [(''goal'', JStr ''Colorize'')]])"
      "demo_parse empty_plan_text = Some (JArr [])"
    by (simp_all add: demo_parse_def no_number_text_def no_number_json_def empty_plan_text_def
        plan_text_def)
  from generateRestorationPlan_nonempty_array [OF f g1, of "demo_env (Some ''key'') no_number"]
    generateRestorationPlan_nonempty_array [OF f g2, of "demo_env (Some ''key'') empty_plan"] p
  show ?thesis by (simp add: demo_env_def)
qed

text \<open>
  C4, as stated, fails: for a response whose text is empty, the prompt-generation operation
  returns the empty prompt.
\<close>

theorem generateStepPrompt_empty_text:
  "fst (generateStepPrompt (scripted [text_response '''']) (Some ''data:image/png;base64,BBBB'')
          (Some (JStr ''Colorize'')) ''keep the hat'' demo_world) = Fulfilled ''''"
  by code_simp

text \<open>
  C4, amended. Once the current image is a string, the goal converts to a string and the
  Gateway has answered the request, \<open>generateStepPrompt\<close> returns the response text trimmed
  for every response that carries a text, the empty text included, and fails (with a
  TypeError) exactly when the response carries no text.
\<close>

theorem generateStepPrompt_trimmed_text:
  assumes "base64ToGenerativePart cur None = Inr imagePart"
    and "template_value stepGoal = Inr goal_text"
    and "generateContent ai (prompt_request imagePart goal_text up) w = (Fulfilled rsp, w1)"
  shows "generateStepPrompt ai cur stepGoal up w =
     (case text_r rsp of
        Some t \<Rightarrow> (Fulfilled (trim t), w1)
      | None \<Rightarrow> (Rejected (JsTypeError ''Cannot read properties of undefined (reading 'trim')''), w1))"
  using assms
  by (simp add: generateStepPrompt_def or_throw_def await_def split: option.splits)

theorem generateStepPrompt_trimmed_text_witness:
  "generateStepPrompt (scripted [text_response '' add color...  ''])
      (Some ''data:image/png;base64,BBBB'') (Some (JStr ''Colorize'')) ''keep the hat'' demo_world =
     (Fulfilled ''add color...'',
      demo_world\<lparr>remote := 1,
        trace := [GenerateContent (prompt_request (image_part ''BBBB'') ''Colorize'' ''keep the hat'')]\<rparr>)"
proof -
  have b: "base64ToGenerativePart (Some ''data:image/png;base64,BBBB'') None = Inr (image_part ''BBBB'')"
    by (simp add: base64ToGenerativePart_def image_part_def)
  have t: "template_value (Some (JStr ''Colorize'')) = Inr ''Colorize''"
    by (simp add: template_value_def)
  have g: "generateContent (scripted [text_response '' add color...  ''])
      (prompt_request (image_part ''BBBB'') ''Colorize'' ''keep the hat'') demo_world =
      (Fulfilled \<lparr>text_r = Some '' add color...  '', candidates = None\<rparr>,
       demo_world\<lparr>remote := 1,
        trace := [GenerateContent (prompt_request (image_part ''BBBB'') ''Colorize'' ''keep the hat'')]\<rparr>)"
    by (simp add: generateContent_def scripted_def text_response_def demo_world_def)
  have tr: "trim '' add color...  '' = ''add color...''"
    by (simp add: trim_def is_white_space_def)
  from generateStepPrompt_trimmed_text [OF b t g] tr show ?thesis by simp
qed

text \<open>
  C5, as stated, fails: the response holds an image payload, in the second part of its
  candidate, and the image-edit operation fails.
\<close>

theorem executeImageStep_image_not_first:
  "has_image_payload text_then_image \<and>
   fst (executeImageStep (scripted [Fulfilled text_then_image])
          (Some ''data:image/jpeg;base64,AAAA'') ''fix scratches...'' demo_world) =
     Rejected (JsError ''Image generation failed or did not return an image.'')"
  by code_simp

text \<open>
  C5, amended. Once the current image is a string and the Gateway has answered the request,
  \<open>executeImageStep\<close> returns an image exactly when the first part of the first candidate
  has inline data; the image is then \<open>data:image/png;base64,\<close> followed by that data (by
  \<open>undefined\<close> when the inline data has none). In every other case it fails; in particular
  it fails whenever the response holds no image payload at all.
\<close>

theorem executeImageStep_first_part:
  assumes "base64ToGenerativePart cur None = Inr imagePart"
    and "generateContent ai (edit_request imagePart stepPrompt) w = (Fulfilled rsp, w1)"
  shows "((\<exists>a. executeImageStep ai cur stepPrompt w = (Fulfilled a, w1)) \<longleftrightarrow>
            (\<exists>p b. first_part rsp = Inr (Some p) \<and> inlineData p = Some (Some b))) \<and>
         (\<forall>p b. first_part rsp = Inr (Some p) \<and> inlineData p = Some (Some b) \<longrightarrow>
            executeImageStep ai cur stepPrompt w =
              (Fulfilled (''data:image/png;base64,'' @
                 (case data b of None \<Rightarrow> ''undefined'' | Some d \<Rightarrow> d)), w1)) \<and>
         ((\<forall>p b. \<not> (first_part rsp = Inr (Some p) \<and> inlineData p = Some (Some b))) \<longrightarrow>
            (\<exists>e. executeImageStep ai cur stepPrompt w = (Rejected e, w1))) \<and>
         (\<not> has_image_payload rsp \<longrightarrow>
            (\<exists>e. executeImageStep ai cur stepPrompt w = (Rejected e, w1)))"
proof -
  have run: "executeImageStep ai cur stepPrompt w =
      (case first_part rsp of
         Inl e \<Rightarrow> (Rejected e, w1)
       | Inr None \<Rightarrow> (Rejected (JsError ''Image generation failed or did not return an image.''), w1)
       | Inr (Some p) \<Rightarrow>
           (case inlineData p of
              Some (Some b) \<Rightarrow>
                (Fulfilled (''data:image/png;base64,'' @
                   (case data b of None \<Rightarrow> ''undefined'' | Some d \<Rightarrow> d)), w1)
            | Some None \<Rightarrow>
                (Rejected (JsTypeError ''Cannot read properties of undefined (reading 'data')''), w1)
            | None \<Rightarrow>
                (Rejected (JsError ''Image generation failed or did not return an image.''), w1)))"
    using assms
    by (simp add: executeImageStep_def or_throw_def await_def split: sum.splits option.splits)
  have a: "(\<exists>a. executeImageStep ai cur stepPrompt w = (Fulfilled a, w1)) \<longleftrightarrow>
            (\<exists>p b. first_part rsp = Inr (Some p) \<and> inlineData p = Some (Some b))"
    unfolding run by (auto split: sum.splits option.splits)
  have b: "\<forall>p b. first_part rsp = Inr (Some p) \<and> inlineData p = Some (Some b) \<longrightarrow>
            executeImageStep ai cur stepPrompt w =
              (Fulfilled (''data:image/png;base64,'' @
                 (case data b of None \<Rightarrow> ''undefined'' | Some d \<Rightarrow> d)), w1)"
    unfolding run by simp
  have c: "(\<forall>p b. \<not> (first_part rsp = Inr (Some p) \<and> inlineData p = Some (Some b))) \<longrightarrow>
            (\<exists>e. executeImageStep ai cur stepPrompt w = (Rejected e, w1))"
    unfolding run by (auto split: sum.splits option.splits)
  have d: "\<not> has_image_payload rsp \<longrightarrow>
            (\<exists>e. executeImageStep ai cur stepPrompt w = (Rejected e, w1))"
    using c first_part_payload [of rsp] by blast
  from a b c d show ?thesis by blast
qed

theorem executeImageStep_first_part_witness:
  "executeImageStep (scripted [parts_response [image_part ''BBBB'']])
      (Some ''data:image/jpeg;base64,AAAA'') ''fix scratches...'' demo_world =
     (Fulfilled ''data:image/png;base64,BBBB'',
      demo_world\<lparr>remote := 1,
        trace := [GenerateContent (edit_request
          \<lparr>text_p = None, inlineData = Some (Some \<lparr>data = Some ''AAAA'', mimeType = Some ''image/png''\<rparr>)\<rparr>
          ''fix scratches...'')]\<rparr>) \<and>
   \<not> has_image_payload \<lparr>text_r = Some ''I cannot edit this image.'', candidates = None\<rparr> \<and>
   (\<exists>e. executeImageStep (scripted [text_response ''I cannot edit this image.''])
      (Some ''data:image/jpeg;base64,AAAA'') ''fix scratches...'' demo_world =
     (Rejected e,
      demo_world\<lparr>remote := 1,
        trace := [GenerateContent (edit_request
          \<lparr>text_p = None, inlineData = Some (Some \<lparr>data = Some ''AAAA'', mimeType = Some ''image/png''\<rparr>)\<rparr>
          ''fix scratches...'')]\<rparr>))"
proof -
  let ?part = "\<lparr>text_p = None,
    inlineData = Some (Some \<lparr>data = Some ''AAAA'', mimeType = Some ''image/png''\<rparr>)\<rparr>"
  let ?w1 = "demo_world\<lparr>remote := 1,
        trace := [GenerateContent (edit_request ?part ''fix scratches...'')]\<rparr>"
  let ?rsp = "\<lparr>text_r = None,
    candidates = Some [Candidate (Some (Content (Some [image_part ''BBBB''])))]\<rparr>"
  let ?refusal = "\<lparr>text_r = Some ''I cannot edit this image.'', candidates = None\<rparr>"
  have b: "base64ToGenerativePart (Some ''data:image/jpeg;base64,AAAA'') None = Inr ?part"
    by (simp add: base64ToGenerativePart_def)
  have g1: "generateContent (scripted [parts_response [image_part ''BBBB'']])
      (edit_request ?part ''fix scratches...'') demo_world = (Fulfilled ?rsp, ?w1)"
    by (simp add: generateContent_def scripted_def parts_response_def demo_world_def)
  have g2: "generateContent (scripted [text_response ''I cannot edit this image.''])
      (edit_request ?part ''fix scratches...'') demo_world = (Fulfilled ?refusal, ?w1)"
    by (simp add: generateContent_def scripted_def text_response_def demo_world_def)
  have f: "first_part ?rsp = Inr (Some (image_part ''BBBB'')) \<and>
      inlineData (image_part ''BBBB'') =
        Some (Some \<lparr>data = Some ''BBBB'', mimeType = Some ''image/png''\<rparr>)"
    by (simp add: first_part_def image_part_def)
  have n: "\<not> has_image_payload ?refusal"
    by (simp add: has_image_payload_def)
  from executeImageStep_first_part [OF b g1, THEN conjunct2, THEN conjunct1, rule_format, OF f]
  have r1: "executeImageStep (scripted [parts_response [image_part ''BBBB'']])
      (Some ''data:image/jpeg;base64,AAAA'') ''fix scratches...'' demo_world =
     (Fulfilled ''data:image/png;base64,BBBB'', ?w1)"
    by simp
  from executeImageStep_first_part [OF b g2, THEN conjunct2, THEN conjunct2, THEN conjunct2,
      rule_format, OF n]
  have r2: "\<exists>e. executeImageStep (scripted [text_response ''I cannot edit this image.''])
      (Some ''data:image/jpeg;base64,AAAA'') ''fix scratches...'' demo_world = (Rejected e, ?w1)" .
  from r1 n r2 show ?thesis by blast
qed

text \<open>
  C6, as stated, fails: with no API key, a run started from the status \<open>idle\<close> ends in the
  status \<open>error\<close>, and the status \<open>planning\<close> is set before the error is.
\<close>

theorem handleRestore_missing_key_leaves_idle:
  "status (ui demo_world) = Idle \<and> aiRef demo_world = None \<and>
   API_KEY (demo_env None both_steps) = None \<and>
   status (ui (handleRestore (demo_env None both_steps) demo_world)) = Error \<and>
   trace (handleRestore (demo_env None both_steps) demo_world) =
     [SetStatus Idle, SetError None, SetRestorationSteps [], SetProgressMessage [],
      SetStatus Planning, SetProgressMessage ''Generating restoration plan...'',
      SetError (Some ''API_KEY environment variable not set''), SetStatus Error]"
  by code_simp

text \<open>
  C6, amended. When the API key is absent or empty and no client was built before, a run
  with an image present sends no request to the Gateway and publishes no step: it resets
  the state, sets the status \<open>planning\<close> and the first progress message, then reports
  \<open>API_KEY environment variable not set\<close> and ends in the status \<open>error\<close>.
\<close>

theorem handleRestore_missing_key:
  assumes "imageFile (ui w) = Some file"
    and "aiRef w = None"
    and "API_KEY env = None \<or> API_KEY env = Some []"
  shows "ui (handleRestore env w) =
           (ui w)\<lparr>status := Error, error := Some ''API_KEY environment variable not set'',
             restorationSteps := [], progressMessage := ''Generating restoration plan...''\<rparr> \<and>
         trace (handleRestore env w) = trace w @
           [SetStatus Idle, SetError None, SetRestorationSteps [], SetProgressMessage [],
            SetStatus Planning, SetProgressMessage ''Generating restoration plan...'',
            SetError (Some ''API_KEY environment variable not set''), SetStatus Error] \<and>
         remote (handleRestore env w) = remote w"
proof -
  have a: "aiRef (run_start w) = None"
    using assms(2) by (simp add: run_start_def resetState_def)
  have "getAiClient env (run_start w) =
      (Inl (JsError ''API_KEY environment variable not set''), run_start w)"
    using a assms(3) by (auto simp: getAiClient_def)
  then have "planning env file (userPrompt (ui w)) (run_start w) =
      (Rejected (JsError ''API_KEY environment variable not set''), run_start w)"
    by (simp add: planning_def)
  then have "handleRestore env w =
      catch_block (JsError ''API_KEY environment variable not set'') (run_start w)"
    using assms(1) by (simp add: handleRestore_unfold)
  then show ?thesis
    by (simp add: catch_block_def run_start_ui run_start_trace setStatus_def setError_def
        run_start_def resetState_def setRestorationSteps_def setProgressMessage_def)
qed

theorem handleRestore_missing_key_witness:
  "ui (handleRestore (demo_env (Some []) both_steps) demo_world) =
     demo_ui\<lparr>status := Error, error := Some ''API_KEY environment variable not set'',
       progressMessage := ''Generating restoration plan...''\<rparr> \<and>
   requests (trace (handleRestore (demo_env (Some []) both_steps) demo_world)) = [] \<and>
   remote (handleRestore (demo_env (Some []) both_steps) demo_world) = 0"
proof -
  have k: "API_KEY (demo_env (Some []) both_steps) = None \<or>
      API_KEY (demo_env (Some []) both_steps) = Some []"
    by (simp add: demo_env_def)
  have a: "aiRef demo_world = None" by (simp add: demo_world_def)
  from handleRestore_missing_key [OF demo_world_fields(1) a k] show ?thesis
    by (simp add: demo_world_def demo_ui_def)
qed

text \<open>
  C7, as stated, fails: for a plan whose only step is numbered 2, the run completes and the
  published sequence starts at step number 2.
\<close>

theorem handleRestore_step_numbers_from_two:
  "status (ui (handleRestore (demo_env (Some ''key'') from_two) demo_world)) = Done \<and>
   map step (restorationSteps (ui (handleRestore (demo_env (Some ''key'') from_two) demo_world))) =
     [Some (JNum 2)]"
  by code_simp

text \<open>
  C7, amended. The published sequence is never longer than the plan, and its step numbers
  are the values found under \<open>step\<close> in the plan elements, in plan order, whatever they are.
\<close>

theorem handleRestore_step_numbers:
  assumes img: "imageFile (ui w) = Some file"
    and pl: "planning env file (userPrompt (ui w)) (run_start w) = (Fulfilled (ai, plan), wp)"
  shows "length (restorationSteps (ui (handleRestore env w))) \<le> length plan \<and>
         map step (restorationSteps (ui (handleRestore env w))) =
           map (\<lambda>p. own_property p ''step'')
             (take (length (restorationSteps (ui (handleRestore env w)))) plan)"
proof -
  obtain rl wl where lp:
    "for_plan ai (userPrompt (ui w)) (length plan) 0 plan (imagePreview (ui w), [])
       (setStatus Restoring wp) = (rl, wl)"
    by (cases "for_plan ai (userPrompt (ui w)) (length plan) 0 plan (imagePreview (ui w), [])
       (setStatus Restoring wp)")
  from handleRestore_with_plan [OF img pl lp] obtain new where
    n: "restorationSteps (ui (handleRestore env w)) = new"
      "records_for plan (imagePreview (ui w)) new"
    by blast
  from records_for_length [OF n(2)] records_for_step [OF n(2)] show ?thesis
    unfolding n(1) by simp
qed

theorem handleRestore_step_numbers_witness:
  "map step (restorationSteps (ui (handleRestore (demo_env (Some ''key'') both_steps) demo_world))) =
     [Some (JNum 1), Some (JNum 2)] \<and>
   map step (restorationSteps
     (ui (handleRestore (demo_env (Some ''key'') second_edit_fails) demo_world))) = [Some (JNum 1)]"
proof -
  let ?up = "userPrompt (ui demo_world)"
  let ?e1 = "demo_env (Some ''key'') both_steps"
  let ?P1 = "planning ?e1 demo_file ?up (run_start demo_world)"
  let ?e2 = "demo_env (Some ''key'') second_edit_fails"
  let ?P2 = "planning ?e2 demo_file ?up (run_start demo_world)"
  have "fst ?P1 = Fulfilled (scripted both_steps, plan_list)"
    by (simp add: demo_world_fields demo_planning both_steps_def text_response_def demo_parse_plan)
  then have p1: "?P1 = (Fulfilled (scripted both_steps, plan_list), snd ?P1)"
    by (metis prod.collapse)
  have "fst ?P2 = Fulfilled (scripted second_edit_fails, plan_list)"
    by (simp add: demo_world_fields demo_planning second_edit_fails_def text_response_def
        demo_parse_plan)
  then have p2: "?P2 = (Fulfilled (scripted second_edit_fails, plan_list), snd ?P2)"
    by (metis prod.collapse)
  have l1: "length (restorationSteps (ui (handleRestore ?e1 demo_world))) = 2"
    by (simp add: both_steps_run)
  have l2: "length (restorationSteps (ui (handleRestore ?e2 demo_world))) = 1"
    by code_simp
  from handleRestore_step_numbers [OF demo_world_fields(1) p1, THEN conjunct2]
    handleRestore_step_numbers [OF demo_world_fields(1) p2, THEN conjunct2]
  show ?thesis
    unfolding l1 l2 by (simp add: plan_list_def)
qed

text \<open>
  C8. Invoked when no image is present, \<open>handleRestore\<close> returns at once: the world it
  leaves is the world it found, so the status, the error, the results, the progress
  message are unchanged, no state setter was called and no request was sent.
\<close>

theorem handleRestore_without_image:
  assumes "imageFile (ui w) = None"
  shows "handleRestore env w = w"
  using assms by (simp add: handleRestore_def)

theorem handleRestore_without_image_witness:
  "imageFile (ui (handleStartOver demo_world)) = None \<and>
   handleRestore (demo_env (Some ''key'') both_steps) (handleStartOver demo_world) =
     handleStartOver demo_world"
proof -
  have none: "imageFile (ui (handleStartOver demo_world)) = None"
    by (simp add: handleStartOver_def resetState_def)
  from handleRestore_without_image [OF none] none show ?thesis by simp
qed

text \<open>
  C9. Whatever the state before, in particular after \<open>done\<close> or \<open>error\<close>, \<open>resetState\<close>
  leaves the status \<open>idle\<close>, no error message, an empty results sequence and an empty
  progress message, and touches nothing else of the component's state; a second reset
  leaves the same state. The same holds for \<open>handleStartOver\<close>, which also clears the image,
  its preview and the instructions.
\<close>

theorem resetState_idempotent:
  "ui (resetState w) =
     (ui w)\<lparr>status := Idle, error := None, restorationSteps := [], progressMessage := []\<rparr> \<and>
   ui (resetState (resetState w)) = ui (resetState w) \<and>
   ui (handleStartOver w) =
     \<lparr>imageFile = None, imagePreview = None, userPrompt = [], status = Idle, error = None,
      restorationSteps = [], progressMessage = []\<rparr> \<and>
   ui (handleStartOver (handleStartOver w)) = ui (handleStartOver w)"
  by (simp add: resetState_def handleStartOver_def)

text \<open>
  C10. In a run, whatever the media type of the uploaded file, the \<open>afterImage\<close> of every
  published step starts with \<open>data:image/png;base64,\<close>, and every request sent after the
  planning request (the per-step requests) carries an image, each image it carries being
  declared \<open>image/png\<close>.
\<close>

theorem handleRestore_png_everywhere:
  assumes img: "imageFile (ui w) = Some file"
  shows "(\<forall>r \<in> set (restorationSteps (ui (handleRestore env w))).
            \<exists>d. afterImage r = ''data:image/png;base64,'' @ d) \<and>
         (\<exists>evs. trace (handleRestore env w) = trace w @ evs \<and>
            (\<forall>req \<in> set (tl (requests evs)).
               (\<exists>p \<in> set (contents req). inlineData p \<noteq> None) \<and>
               (\<forall>p \<in> set (contents req). \<forall>b.
                  inlineData p = Some (Some b) \<longrightarrow> mimeType b = Some ''image/png'')))"
proof -
  let ?P = "planning env file (userPrompt (ui w)) (run_start w)"
  obtain rp wp where pl: "?P = (rp, wp)" by (cases ?P)
  show ?thesis
  proof (cases "\<exists>v. rp = Fulfilled v")
    case False
    from handleRestore_no_plan [OF img pl] False obtain evs where
      e: "restorationSteps (ui (handleRestore env w)) = []"
        "trace (handleRestore env w) = trace w @ evs" "length (requests evs) \<le> 1"
      by auto
    from e(3) have "tl (requests evs) = []" by (cases "requests evs") auto
    with e show ?thesis by auto
  next
    case True
    then obtain ai plan where rp: "rp = Fulfilled (ai, plan)" by auto
    obtain rl wl where lp:
      "for_plan ai (userPrompt (ui w)) (length plan) 0 plan (imagePreview (ui w), [])
         (setStatus Restoring wp) = (rl, wl)"
      by (cases "for_plan ai (userPrompt (ui w)) (length plan) 0 plan (imagePreview (ui w), [])
         (setStatus Restoring wp)")
    from handleRestore_with_plan [OF img pl [unfolded rp] lp] obtain evs new where
      n: "trace (handleRestore env w) = trace w @ evs"
        "restorationSteps (ui (handleRestore env w)) = new"
        "records_for plan (imagePreview (ui w)) new" "png_only (tl (requests evs))"
      by blast
    have "\<forall>r \<in> set new. \<exists>d. afterImage r = ''data:image/png;base64,'' @ d"
      using records_for_png [OF n(3)] unfolding is_png_data_url_iff by blast
    with n show ?thesis unfolding png_only_def by blast
  qed
qed

theorem handleRestore_png_everywhere_witness:
  "file_type demo_file = ''image/jpeg'' \<and>
   map afterImage
     (restorationSteps (ui (handleRestore (demo_env (Some ''key'') both_steps) demo_world))) =
     [''data:image/png;base64,BBBB'', ''data:image/png;base64,CCCC''] \<and>
   map declared_types
     (requests (trace (handleRestore (demo_env (Some ''key'') both_steps) demo_world))) =
     [[Some ''image/jpeg''], [Some ''image/png''], [Some ''image/png''], [Some ''image/png''],
      [Some ''image/png'']] \<and>
   list_all is_png_data_url
     (map afterImage
        (restorationSteps (ui (handleRestore (demo_env (Some ''key'') both_steps) demo_world)))) \<and>
   png_only
     (tl (requests (trace (handleRestore (demo_env (Some ''key'') both_steps) demo_world))))"
proof -
  let ?W = "handleRestore (demo_env (Some ''key'') both_steps) demo_world"
  have t0: "trace demo_world = []" by (simp add: demo_world_def)
  have a: "file_type demo_file = ''image/jpeg''" by (simp add: demo_file_def)
  have b: "map afterImage (restorationSteps (ui ?W)) =
      [''data:image/png;base64,BBBB'', ''data:image/png;base64,CCCC'']"
    by (simp add: both_steps_run first_record_def second_record_def)
  from handleRestore_png_everywhere [OF demo_world_fields(1), of "demo_env (Some ''key'') both_steps"]
  obtain evs where
    c: "\<forall>r \<in> set (restorationSteps (ui ?W)). \<exists>d. afterImage r = ''data:image/png;base64,'' @ d"
    and e: "trace ?W = trace demo_world @ evs"
    and d: "\<forall>req \<in> set (tl (requests evs)).
      (\<exists>p \<in> set (contents req). inlineData p \<noteq> None) \<and>
      (\<forall>p \<in> set (contents req). \<forall>b.
         inlineData p = Some (Some b) \<longrightarrow> mimeType b = Some ''image/png'')"
    by blast
  from e t0 have evs: "evs = trace ?W" by simp
  from c have c': "list_all is_png_data_url (map afterImage (restorationSteps (ui ?W)))"
    by (simp add: list_all_iff is_png_data_url_iff)
  from d have d': "png_only (tl (requests (trace ?W)))"
    unfolding png_only_def evs .
  from a b c' d' both_steps_requests show ?thesis by blast
qed

end
